theory Spec2Isabelle
  imports Main "HOL-Library.Word"
begin

unbundle bit_operations_syntax

section \<open>Bytes, slices and \<open>struct.unpack\<close>\<close>

text \<open>
  A Python \<open>bytes\<close> object is a list of 8-bit words.  The four driver files
  (\<open>radar.py\<close>, \<open>radar1.py\<close>, \<open>radar2.py\<close>, \<open>iwr1843.py\<close>) share the same
  synchronisation word.
\<close>

type_synonym byte = "8 word"
type_synonym bytes = "byte list"
type_synonym u32 = "32 word"

text \<open>
  A \<open>float\<close> produced by \<open>struct.unpack('4f', ...)\<close> is kept as the 32 bits of its
  IEEE-754 single-precision encoding; the only operation the decoders apply to it is the
  comparison with \<open>0\<close>.
\<close>

type_synonym float32 = "32 word"

datatype py_error = ValueError | StructError | SerialException | CallbackError

definition MAGIC_WORD :: bytes where
  "MAGIC_WORD = [0x02, 0x01, 0x04, 0x03, 0x06, 0x05, 0x08, 0x07]"

text \<open>\<open>buffer[a:b]\<close> for non-negative \<open>a\<close>, \<open>b\<close>: clipped to the buffer, never an error.\<close>

definition slice :: "bytes \<Rightarrow> nat \<Rightarrow> nat \<Rightarrow> bytes" where
  "slice buffer a b = take (b - a) (drop a buffer)"

text \<open>\<open>buffer.index(sub)\<close>: the offset of the first occurrence, or \<open>ValueError\<close>.\<close>

fun bytes_index :: "bytes \<Rightarrow> bytes \<Rightarrow> py_error + nat" where
  "bytes_index [] sub = (if sub = [] then Inr 0 else Inl ValueError)"
| "bytes_index (b # bs) sub =
     (if take (length sub) (b # bs) = sub then Inr 0
      else (case bytes_index bs sub of Inl e \<Rightarrow> Inl e | Inr i \<Rightarrow> Inr (Suc i)))"

text \<open>\<open>sub in buffer\<close>: the same search, as a truth value.\<close>

definition bytes_contains :: "bytes \<Rightarrow> bytes \<Rightarrow> bool" where
  "bytes_contains buffer sub = (case bytes_index buffer sub of Inl e \<Rightarrow> False | Inr i \<Rightarrow> True)"

text \<open>A little-endian unsigned 32-bit field (format character \<open>I\<close> under \<open><\<close>).\<close>

definition le_u32 :: "bytes \<Rightarrow> u32" where
  "le_u32 bs = foldr (\<lambda>b acc. ucast b OR push_bit 8 acc) bs 0"

text \<open>
  \<open>struct.unpack('<7I', data)\<close> and \<open>struct.unpack('<2I', data)\<close> raise
  \<open>struct.error\<close> unless \<open>data\<close> has exactly 28, respectively 8, bytes.
\<close>

definition unpack_7I :: "bytes \<Rightarrow> py_error + u32 list" where
  "unpack_7I data =
     (if length data \<noteq> 28 then Inl StructError
      else Inr (map (\<lambda>i. le_u32 (slice data (4 * i) (4 * i + 4))) [0..<7]))"

definition unpack_2I :: "bytes \<Rightarrow> py_error + u32 \<times> u32" where
  "unpack_2I data =
     (if length data \<noteq> 8 then Inl StructError
      else Inr (le_u32 (slice data 0 4), le_u32 (slice data 4 8)))"

text \<open>
  \<open>struct.unpack('4f', data)\<close>: four floats in native byte order, which is little-endian
  on the machines the drivers run on (the files name Windows COM ports); it raises
  \<open>struct.error\<close> unless \<open>data\<close> has exactly 16 bytes.
\<close>

type_synonym point = "float32 \<times> float32 \<times> float32 \<times> float32"

definition unpack_4f :: "bytes \<Rightarrow> py_error + point" where
  "unpack_4f data =
     (if length data \<noteq> 16 then Inl StructError
      else Inr (le_u32 (slice data 0 4), le_u32 (slice data 4 8),
                le_u32 (slice data 8 12), le_u32 (slice data 12 16)))"

text \<open>
  \<open>x == 0\<close> for a float \<open>x\<close> and the integer \<open>0\<close>: numeric equality.  An IEEE-754
  single is numerically zero exactly when it is \<open>+0.0\<close> (all bits clear) or \<open>-0.0\<close>
  (only the sign bit set); a NaN equals nothing.
\<close>

definition float_eq_zero :: "float32 \<Rightarrow> bool" where
  "float_eq_zero w = (w = 0 \<or> w = 0x80000000)"

text \<open>
  \<open>(x, y, z) != (0, 0, 0)\<close>: tuples differ when some component pair is unequal.
\<close>

definition triple_ne_zero :: "float32 \<Rightarrow> float32 \<Rightarrow> float32 \<Rightarrow> bool" where
  "triple_ne_zero x y z = (\<not> (float_eq_zero x \<and> float_eq_zero y \<and> float_eq_zero z))"

text \<open>
  The value returned by a decoder: \<open>np.empty((0, 4))\<close>, the empty 0-by-4 array, or
  \<open>np.array(points)\<close> for the list of rows collected by the loop (for an empty list
  that is an empty array of shape \<open>(0,)\<close>).  \<open>len\<close> is the number of rows.
\<close>

datatype ndarray = Empty_0x4 | Array "point list"

fun len :: "ndarray \<Rightarrow> nat" where
  "len Empty_0x4 = 0"
| "len (Array points) = length points"

text \<open>\<open>range(start, stop, step)\<close> for the ascending ranges the decoders use.\<close>

definition range_step :: "nat \<Rightarrow> nat \<Rightarrow> nat \<Rightarrow> nat list" where
  "range_step start stop step =
     map (\<lambda>k. start + k * step) [0..<(stop - start + step - 1) div step]"

text \<open>\<open>try: body except Exception: handler\<close>.\<close>

definition try_except :: "py_error + 'a \<Rightarrow> (py_error \<Rightarrow> py_error + 'a) \<Rightarrow> py_error + 'a" where
  "try_except body handler = (case body of Inl e \<Rightarrow> handler e | Inr v \<Rightarrow> Inr v)"

section \<open>The point-cloud decoders\<close>

subsection \<open>\<open>radar.py\<close>\<close>

text \<open>
  The \<open>for offset in range(0, num_points * 16, 16)\<close> loop of \<open>radar.py\<close>: a record
  that is not fully present ends the loop (\<open>break\<close>), a zero triple is skipped.
\<close>

fun collect_points_radar :: "bytes \<Rightarrow> nat \<Rightarrow> nat list \<Rightarrow> point list \<Rightarrow> py_error + point list" where
  "collect_points_radar buffer data_start [] points = Inr points"
| "collect_points_radar buffer data_start (offset # offsets) points =
     (let point_data = slice buffer (data_start + offset) (data_start + offset + 16) in
      if length point_data < 16 then Inr points
      else (case unpack_4f point_data of
              Inl e \<Rightarrow> Inl e
            | Inr (x, y, z, vel) \<Rightarrow>
                if triple_ne_zero x y z
                then collect_points_radar buffer data_start offsets (points @ [(x, y, z, vel)])
                else collect_points_radar buffer data_start offsets points))"

definition parse_body_radar :: "bytes \<Rightarrow> py_error + ndarray" where
  "parse_body_radar buffer =
     (case bytes_index buffer MAGIC_WORD of
        Inl e \<Rightarrow> Inl e
      | Inr idx \<Rightarrow>
          (let header = slice buffer idx (idx + 40) in
           case unpack_7I (slice header 8 36) of
             Inl e \<Rightarrow> Inl e
           | Inr fields \<Rightarrow>
               (case unpack_2I (slice buffer (idx + 40) (idx + 48)) of
                  Inl e \<Rightarrow> Inl e
                | Inr (tlv_type, tlv_length) \<Rightarrow>
                    (let num_points = unat tlv_length div 16 in
                     if num_points > 1000 then Inr Empty_0x4
                     else (let data_start = idx + 48 in
                           case collect_points_radar buffer data_start
                                  (range_step 0 (num_points * 16) 16) [] of
                             Inl e \<Rightarrow> Inl e
                           | Inr points \<Rightarrow> Inr (Array points))))))"

definition parse_pointcloud_radar :: "bytes \<Rightarrow> py_error + ndarray" where
  "parse_pointcloud_radar buffer = try_except (parse_body_radar buffer) (\<lambda>e. Inr Empty_0x4)"

subsection \<open>\<open>iwr1843.py\<close>\<close>

text \<open>
  The command-line driver has the same loop and the same body; its handler prints the
  exception before returning the empty array (the printed line is not part of the result).
\<close>

fun collect_points_iwr1843 :: "bytes \<Rightarrow> nat \<Rightarrow> nat list \<Rightarrow> point list \<Rightarrow> py_error + point list" where
  "collect_points_iwr1843 buffer data_start [] points = Inr points"
| "collect_points_iwr1843 buffer data_start (offset # offsets) points =
     (let point_data = slice buffer (data_start + offset) (data_start + offset + 16) in
      if length point_data < 16 then Inr points
      else (case unpack_4f point_data of
              Inl e \<Rightarrow> Inl e
            | Inr (x, y, z, vel) \<Rightarrow>
                if triple_ne_zero x y z
                then collect_points_iwr1843 buffer data_start offsets (points @ [(x, y, z, vel)])
                else collect_points_iwr1843 buffer data_start offsets points))"

definition parse_body_iwr1843 :: "bytes \<Rightarrow> py_error + ndarray" where
  "parse_body_iwr1843 buffer =
     (case bytes_index buffer MAGIC_WORD of
        Inl e \<Rightarrow> Inl e
      | Inr idx \<Rightarrow>
          (let header = slice buffer idx (idx + 40) in
           case unpack_7I (slice header 8 36) of
             Inl e \<Rightarrow> Inl e
           | Inr fields \<Rightarrow>
               (case unpack_2I (slice buffer (idx + 40) (idx + 48)) of
                  Inl e \<Rightarrow> Inl e
                | Inr (tlv_type, tlv_length) \<Rightarrow>
                    (let num_points = unat tlv_length div 16 in
                     if num_points > 1000 then Inr Empty_0x4
                     else (let data_start = idx + 48 in
                           case collect_points_iwr1843 buffer data_start
                                  (range_step 0 (num_points * 16) 16) [] of
                             Inl e \<Rightarrow> Inl e
                           | Inr points \<Rightarrow> Inr (Array points))))))"

definition parse_pointcloud_iwr1843 :: "bytes \<Rightarrow> py_error + ndarray" where
  "parse_pointcloud_iwr1843 buffer = try_except (parse_body_iwr1843 buffer) (\<lambda>e. Inr Empty_0x4)"

subsection \<open>\<open>radar1.py\<close> and \<open>radar2.py\<close>\<close>

text \<open>
  The two enhanced drivers return the empty array for a TLV type other than 1 and run
  \<open>for i in range(num_points)\<close> without a length test: \<open>struct.unpack\<close> raises on a
  record that is not fully present.
\<close>

fun collect_points_radar1 :: "bytes \<Rightarrow> nat \<Rightarrow> nat list \<Rightarrow> point list \<Rightarrow> py_error + point list" where
  "collect_points_radar1 buffer off [] points = Inr points"
| "collect_points_radar1 buffer off (i # is) points =
     (case unpack_4f (slice buffer (off + i * 16) (off + i * 16 + 16)) of
        Inl e \<Rightarrow> Inl e
      | Inr (x, y, z, vel) \<Rightarrow>
          if triple_ne_zero x y z
          then collect_points_radar1 buffer off is (points @ [(x, y, z, vel)])
          else collect_points_radar1 buffer off is points)"

definition parse_body_radar1 :: "bytes \<Rightarrow> py_error + ndarray" where
  "parse_body_radar1 buffer =
     (case bytes_index buffer MAGIC_WORD of
        Inl e \<Rightarrow> Inl e
      | Inr idx \<Rightarrow>
          (let header = slice buffer idx (idx + 40) in
           case unpack_7I (slice header 8 36) of
             Inl e \<Rightarrow> Inl e
           | Inr fields \<Rightarrow>
               (case unpack_2I (slice buffer (idx + 40) (idx + 48)) of
                  Inl e \<Rightarrow> Inl e
                | Inr (tlv_type, tlv_length) \<Rightarrow>
                    if tlv_type \<noteq> 1 then Inr Empty_0x4
                    else (let num_points = unat tlv_length div 16 in
                          if num_points > 1000 then Inr Empty_0x4
                          else (let off = idx + 48 in
                                case collect_points_radar1 buffer off
                                       [0..<num_points] [] of
                                  Inl e \<Rightarrow> Inl e
                                | Inr points \<Rightarrow> Inr (Array points))))))"

definition parse_pointcloud_radar1 :: "bytes \<Rightarrow> py_error + ndarray" where
  "parse_pointcloud_radar1 buffer = try_except (parse_body_radar1 buffer) (\<lambda>e. Inr Empty_0x4)"

fun collect_points_radar2 :: "bytes \<Rightarrow> nat \<Rightarrow> nat list \<Rightarrow> point list \<Rightarrow> py_error + point list" where
  "collect_points_radar2 buffer off [] points = Inr points"
| "collect_points_radar2 buffer off (i # is) points =
     (case unpack_4f (slice buffer (off + i * 16) (off + i * 16 + 16)) of
        Inl e \<Rightarrow> Inl e
      | Inr (x, y, z, vel) \<Rightarrow>
          if triple_ne_zero x y z
          then collect_points_radar2 buffer off is (points @ [(x, y, z, vel)])
          else collect_points_radar2 buffer off is points)"

definition parse_body_radar2 :: "bytes \<Rightarrow> py_error + ndarray" where
  "parse_body_radar2 buffer =
     (case bytes_index buffer MAGIC_WORD of
        Inl e \<Rightarrow> Inl e
      | Inr idx \<Rightarrow>
          (let header = slice buffer idx (idx + 40) in
           case unpack_7I (slice header 8 36) of
             Inl e \<Rightarrow> Inl e
           | Inr fields \<Rightarrow>
               (case unpack_2I (slice buffer (idx + 40) (idx + 48)) of
                  Inl e \<Rightarrow> Inl e
                | Inr (tlv_type, tlv_length) \<Rightarrow>
                    if tlv_type \<noteq> 1 then Inr Empty_0x4
                    else (let num_points = unat tlv_length div 16 in
                          if num_points > 1000 then Inr Empty_0x4
                          else (let off = idx + 48 in
                                case collect_points_radar2 buffer off
                                       [0..<num_points] [] of
                                  Inl e \<Rightarrow> Inl e
                                | Inr points \<Rightarrow> Inr (Array points))))))"

definition parse_pointcloud_radar2 :: "bytes \<Rightarrow> py_error + ndarray" where
  "parse_pointcloud_radar2 buffer = try_except (parse_body_radar2 buffer) (\<lambda>e. Inr Empty_0x4)"

section \<open>Reading a frame off the wire\<close>

text \<open>
  The fields of the wire format at a given synchronisation offset, used to state what the
  decoders return: the TLV header at offsets 40 and 44, record \<open>i\<close> at offset \<open>48 + 16 i\<close>.
\<close>

definition tlv_type_at :: "bytes \<Rightarrow> nat \<Rightarrow> u32" where
  "tlv_type_at buffer idx = le_u32 (slice buffer (idx + 40) (idx + 44))"

definition tlv_length_at :: "bytes \<Rightarrow> nat \<Rightarrow> u32" where
  "tlv_length_at buffer idx = le_u32 (slice buffer (idx + 44) (idx + 48))"

definition num_points_at :: "bytes \<Rightarrow> nat \<Rightarrow> nat" where
  "num_points_at buffer idx = unat (tlv_length_at buffer idx) div 16"

definition record_at :: "bytes \<Rightarrow> nat \<Rightarrow> nat \<Rightarrow> point" where
  "record_at buffer idx i =
     (le_u32 (slice buffer (idx + 48 + 16 * i) (idx + 48 + 16 * i + 4)),
      le_u32 (slice buffer (idx + 48 + 16 * i + 4) (idx + 48 + 16 * i + 8)),
      le_u32 (slice buffer (idx + 48 + 16 * i + 8) (idx + 48 + 16 * i + 12)),
      le_u32 (slice buffer (idx + 48 + 16 * i + 12) (idx + 48 + 16 * i + 16)))"

text \<open>The number of records that lie completely inside the buffer.\<close>

definition records_present :: "bytes \<Rightarrow> nat \<Rightarrow> nat" where
  "records_present buffer idx = (length buffer - (idx + 48)) div 16"

text \<open>A record is kept when its coordinate triple is not numerically zero.\<close>

fun valid_point :: "point \<Rightarrow> bool" where
  "valid_point (x, y, z, vel) = triple_ne_zero x y z"

text \<open>
  Following the spec's words (``exact bit comparison against zero''): a record is valid
  when the bits of its coordinate triple are not all clear.  This is the reading the
  decoders are compared with, not a translation of their code.
\<close>

fun valid_point_bitwise :: "point \<Rightarrow> bool" where
  "valid_point_bitwise (x, y, z, vel) = ((x, y, z) \<noteq> (0, 0, 0))"

section \<open>The capture session\<close>

text \<open>
  The fields of \<open>TI1843Radar\<close> the capture path reads or writes.  A serial port is
  either absent (\<open>None\<close>) or an object whose \<open>is_open\<close> flag is set or not.  Three
  further fields record what the object does to its surroundings: the arguments of the
  callback invocations in order, the exceptions the worker printed, and the callbacks of
  the worker threads that were started.  \<open>radar1.py\<close> and \<open>radar2.py\<close> have no
  \<open>points_count\<close>; their operations leave that field alone.
\<close>

datatype serial = Serial (is_open: bool)

type_synonym callback = "ndarray \<Rightarrow> py_error option"

record radar_state =
  cli :: "serial option"
  data :: "serial option"
  running :: bool
  capturing :: bool
  buffer :: bytes
  points_count :: nat
  delivered :: "ndarray list"
  printed :: "py_error list"
  workers :: "callback list"

text \<open>
  \<open>is_connected\<close>: both ports exist and are open.  \<open>radar.py\<close> tests \<open>is not None\<close>,
  \<open>radar1.py\<close> and \<open>radar2.py\<close> test the truth value of the port object, which is true
  for every serial object; the two forms have the same truth value.
\<close>

definition is_connected :: "radar_state \<Rightarrow> bool" where
  "is_connected s =
     (case cli s of
        None \<Rightarrow> False
      | Some c \<Rightarrow> is_open c \<and> (case data s of None \<Rightarrow> False | Some d \<Rightarrow> is_open d))"



definition stop_capture_radar :: "radar_state \<Rightarrow> radar_state" where
  "stop_capture_radar s = s\<lparr>running := False, capturing := False, buffer := [], points_count := 0\<rparr>"

text \<open>
  What one poll of the data port yields: the serial layer raises, or \<open>in_waiting\<close> bytes
  are there to read (possibly none).  A callback returns normally (\<open>None\<close>) or raises.
\<close>

datatype poll = SerialFails | Available bytes

text \<open>
  The \<open>try\<close> block of one iteration of \<open>_capture_loop\<close> in \<open>radar.py\<close>: the state
  it leaves and the exception that ended it, if any.  \<open>time.sleep\<close> changes nothing.
\<close>

definition capture_iteration_radar :: "callback \<Rightarrow> poll \<Rightarrow> radar_state \<Rightarrow> radar_state \<times> py_error option" where
  "capture_iteration_radar callback p s =
     (case p of
        SerialFails \<Rightarrow> (s, Some SerialException)
      | Available bs \<Rightarrow>
          if length bs > 0 then
            (let s1 = s\<lparr>buffer := buffer s @ bs\<rparr> in
             if bytes_contains (buffer s1) MAGIC_WORD then
               (case parse_pointcloud_radar (buffer s1) of
                  Inl e \<Rightarrow> (s1, Some e)
                | Inr points \<Rightarrow>
                    (let s2 = s1\<lparr>points_count := len points\<rparr> in
                     if len points > 0 then
                       (let s3 = s2\<lparr>delivered := delivered s2 @ [points]\<rparr> in
                        case callback points of
                          Some e \<Rightarrow> (s3, Some e)
                        | None \<Rightarrow> (s3\<lparr>buffer := []\<rparr>, None))
                     else (s2\<lparr>buffer := []\<rparr>, None)))
             else (s1, None))
          else (s, None))"

text \<open>The same block of \<open>loop\<close> in \<open>radar1.py\<close>.\<close>

definition capture_iteration_radar1 :: "callback \<Rightarrow> poll \<Rightarrow> radar_state \<Rightarrow> radar_state \<times> py_error option" where
  "capture_iteration_radar1 callback p s =
     (case p of
        SerialFails \<Rightarrow> (s, Some SerialException)
      | Available bs \<Rightarrow>
          if length bs > 0 then
            (let s1 = s\<lparr>buffer := buffer s @ bs\<rparr> in
             if bytes_contains (buffer s1) MAGIC_WORD then
               (case parse_pointcloud_radar1 (buffer s1) of
                  Inl e \<Rightarrow> (s1, Some e)
                | Inr pts \<Rightarrow>
                    if len pts > 0 then
                      (let s2 = s1\<lparr>delivered := delivered s1 @ [pts]\<rparr> in
                       case callback pts of
                         Some e \<Rightarrow> (s2, Some e)
                       | None \<Rightarrow> (s2\<lparr>buffer := []\<rparr>, None))
                    else (s1\<lparr>buffer := []\<rparr>, None))
             else (s1, None))
          else (s, None))"

text \<open>
  The worker: \<open>while self.running\<close> around the \<open>try\<close> block, one poll per iteration;
  an exception is printed and breaks the loop; \<open>self.capturing = False\<close> follows the
  loop.  The worker is observed for as many iterations as there are polls.
\<close>

datatype worker = Alive | Terminated

fun capture_loop_radar :: "callback \<Rightarrow> poll list \<Rightarrow> radar_state \<Rightarrow> radar_state \<times> worker" where
  "capture_loop_radar callback [] s =
     (if running s then (s, Alive) else (s\<lparr>capturing := False\<rparr>, Terminated))"
| "capture_loop_radar callback (p # ps) s =
     (if running s then
        (case capture_iteration_radar callback p s of
           (s', Some e) \<Rightarrow> (s'\<lparr>printed := printed s' @ [e], capturing := False\<rparr>, Terminated)
         | (s', None) \<Rightarrow> capture_loop_radar callback ps s')
      else (s\<lparr>capturing := False\<rparr>, Terminated))"

fun capture_loop_radar1 :: "callback \<Rightarrow> poll list \<Rightarrow> radar_state \<Rightarrow> radar_state \<times> worker" where
  "capture_loop_radar1 callback [] s =
     (if running s then (s, Alive) else (s\<lparr>capturing := False\<rparr>, Terminated))"
| "capture_loop_radar1 callback (p # ps) s =
     (if running s then
        (case capture_iteration_radar1 callback p s of
           (s', Some e) \<Rightarrow> (s'\<lparr>printed := printed s' @ [e], capturing := False\<rparr>, Terminated)
         | (s', None) \<Rightarrow> capture_loop_radar1 callback ps s')
      else (s\<lparr>capturing := False\<rparr>, Terminated))"

section \<open>Sample frames\<close>

text \<open>
  A frame header (the synchronisation word and seven zero fields), three point records
  (\<open>x = 1.0\<close>; all zero; \<open>x = -0.0\<close>), and the buffers the examples below decode.
\<close>

definition sample_header :: bytes where
  "sample_header = MAGIC_WORD @ replicate 32 0"

definition record_one :: bytes where
  "record_one = [0, 0, 0x80, 0x3F, 0, 0, 0, 0, 0, 0, 0, 0, 0, 0, 0x80, 0x3F]"

definition record_zero :: bytes where
  "record_zero = [0, 0, 0, 0, 0, 0, 0, 0, 0, 0, 0, 0, 0, 0, 0, 0]"

definition record_neg_zero :: bytes where
  "record_neg_zero = [0, 0, 0, 0x80, 0, 0, 0, 0, 0, 0, 0, 0, 0, 0, 0x80, 0x3F]"

definition point_one :: point where
  "point_one = (0x3F800000, 0, 0, 0x3F800000)"

definition point_neg_zero :: point where
  "point_neg_zero = (0x80000000, 0, 0, 0x3F800000)"

text \<open>TLV type 1, length 48, three records of which the second is all zero.\<close>

definition frame_three :: bytes where
  "frame_three = sample_header @ [1, 0, 0, 0] @ [48, 0, 0, 0] @ record_one @ record_zero @ record_one"

text \<open>TLV type 1, length 16, one record whose \<open>x\<close> is \<open>-0.0\<close>.\<close>

definition frame_neg_zero :: bytes where
  "frame_neg_zero = sample_header @ [1, 0, 0, 0] @ [16, 0, 0, 0] @ record_neg_zero"

text \<open>TLV type 2, length 16, one record.\<close>

definition frame_type2 :: bytes where
  "frame_type2 = sample_header @ [2, 0, 0, 0] @ [16, 0, 0, 0] @ record_one"

text \<open>TLV type 1, length 32, but only one record and eight bytes of the second arrived.\<close>

definition frame_truncated :: bytes where
  "frame_truncated = sample_header @ [1, 0, 0, 0] @ [32, 0, 0, 0] @ record_one @ replicate 8 1"

text \<open>TLV type 1, length 16016 (1001 records), followed by one record.\<close>

definition frame_capped :: bytes where
  "frame_capped = sample_header @ [1, 0, 0, 0] @ [0x90, 0x3E, 0, 0] @ record_one"

text \<open>TLV type 1, length 16015 (floor 1000), followed by one record.\<close>

definition frame_below_cap :: bytes where
  "frame_below_cap = sample_header @ [1, 0, 0, 0] @ [0x8F, 0x3E, 0, 0] @ record_one"

text \<open>TLV type 1, length 24: one record and eight bytes more.\<close>

definition frame_remainder :: bytes where
  "frame_remainder = sample_header @ [1, 0, 0, 0] @ [24, 0, 0, 0] @ record_one @ replicate 8 1"



text \<open>The synchronisation word and four more bytes.\<close>

definition frame_short :: bytes where
  "frame_short = MAGIC_WORD @ [1, 2, 3, 4]"

text \<open>A connected radar that is not capturing, and two callbacks.\<close>

definition connected_idle :: radar_state where
  "connected_idle = \<lparr>cli = Some (Serial True), data = Some (Serial True), running = False,
     capturing = False, buffer = [], points_count = 0, delivered = [], printed = [],
     workers = []\<rparr>"

definition capturing_state :: radar_state where
  "capturing_state = connected_idle\<lparr>running := True, capturing := True\<rparr>"

definition callback_ok :: callback where
  "callback_ok points = None"


section \<open>Slices, the synchronisation search and the record loops\<close>

lemma range_step_16: "range_step 0 (n * 16) 16 = map (\<lambda>k. k * 16) [0..<n]"
  by (simp add: range_step_def)

lemma bytes_index_Inr:
  "bytes_index buf sub = Inr i \<Longrightarrow> i + length sub \<le> length buf \<and> take (length sub) (drop i buf) = sub"
proof (induction buf arbitrary: i)
  case Nil
  then show ?case by (simp split: if_splits)
next
  case (Cons b bs)
  show ?case
  proof (cases "take (length sub) (b # bs) = sub")
    case True
    with Cons.prems have "i = 0" by simp
    moreover from True have "length (take (length sub) (b # bs)) = length sub"
      by simp
    then have "length sub \<le> length (b # bs)"
      by simp
    ultimately show ?thesis using True by simp
  next
    case False
    with Cons.prems obtain j where j: "bytes_index bs sub = Inr j" "i = Suc j"
      by (auto split: sum.splits)
    from Cons.IH [OF j(1)] j(2) show ?thesis by simp
  qed
qed

lemma slice_length: "length (slice buf a b) = min (b - a) (length buf - a)"
  by (simp add: slice_def)

lemma slice_slice:
  "q \<le> c - a \<Longrightarrow> slice (slice buf a c) p q = slice buf (a + p) (a + q)"
  by (simp add: slice_def drop_take min_def add.commute)

lemma unpack_4f_record:
  "idx + 48 + 16 * i + 16 \<le> length buf \<Longrightarrow>
   unpack_4f (slice buf (idx + 48 + 16 * i) (idx + 48 + 16 * i + 16)) = Inr (record_at buf idx i)"
  by (simp add: unpack_4f_def record_at_def slice_length slice_slice add.assoc)

lemma record_absent:
  "length (slice buf (idx + 48 + k * 16) (idx + 48 + k * 16 + 16)) < 16 \<longleftrightarrow> records_present buf idx \<le> k"
  by (auto simp add: slice_length records_present_def min_def)

lemma collect_points_radar_absent:
  "length (slice buf (st + off) (st + off + 16)) < 16 \<Longrightarrow>
   collect_points_radar buf st (off # offs) acc = Inr acc"
  by simp

lemma collect_points_radar_present:
  "\<not> length (slice buf (st + off) (st + off + 16)) < 16 \<Longrightarrow>
   unpack_4f (slice buf (st + off) (st + off + 16)) = Inr p \<Longrightarrow>
   collect_points_radar buf st (off # offs) acc =
     collect_points_radar buf st offs (if valid_point p then acc @ [p] else acc)"
  by (cases p) simp

lemma collect_points_radar1_absent:
  "unpack_4f (slice buf (st + i * 16) (st + i * 16 + 16)) = Inl e \<Longrightarrow>
   collect_points_radar1 buf st (i # js) acc = Inl e"
  by simp

lemma collect_points_radar1_present:
  "unpack_4f (slice buf (st + i * 16) (st + i * 16 + 16)) = Inr p \<Longrightarrow>
   collect_points_radar1 buf st (i # js) acc =
     collect_points_radar1 buf st js (if valid_point p then acc @ [p] else acc)"
  by (cases p) simp

lemma collect_points_radar_eq:
  "collect_points_radar buf (idx + 48) (map (\<lambda>k. k * 16) [j..<n]) acc =
     Inr (acc @ filter valid_point (map (record_at buf idx) [j..<min n (records_present buf idx)]))"
proof (induction "n - j" arbitrary: j acc)
  case 0
  then show ?case by simp
next
  case (Suc m)
  then have jn: "j < n" and m: "m = n - Suc j" by arith+
  have l: "map (\<lambda>k. k * 16) [j..<n] = j * 16 # map (\<lambda>k. k * 16) [Suc j..<n]"
    using jn by (simp add: upt_conv_Cons)
  show ?case
  proof (cases "records_present buf idx \<le> j")
    case True
    then have "length (slice buf (idx + 48 + j * 16) (idx + 48 + j * 16 + 16)) < 16"
      by (simp only: record_absent)
    then have "collect_points_radar buf (idx + 48) (map (\<lambda>k. k * 16) [j..<n]) acc = Inr acc"
      unfolding l by (rule collect_points_radar_absent)
    then show ?thesis using True by simp
  next
    case False
    then have pres: "idx + 48 + 16 * j + 16 \<le> length buf"
      by (simp add: records_present_def)
    have up: "[j..<min n (records_present buf idx)] = j # [Suc j..<min n (records_present buf idx)]"
      using False jn by (simp add: upt_conv_Cons)
    have nl: "\<not> length (slice buf (idx + 48 + j * 16) (idx + 48 + j * 16 + 16)) < 16"
      using False record_absent [of buf idx j] by blast
    have u: "unpack_4f (slice buf (idx + 48 + j * 16) (idx + 48 + j * 16 + 16)) = Inr (record_at buf idx j)"
      using unpack_4f_record [OF pres] by (simp add: mult.commute)
    have "collect_points_radar buf (idx + 48) (map (\<lambda>k. k * 16) [j..<n]) acc =
          collect_points_radar buf (idx + 48) (map (\<lambda>k. k * 16) [Suc j..<n])
            (if valid_point (record_at buf idx j) then acc @ [record_at buf idx j] else acc)"
      unfolding l by (rule collect_points_radar_present [OF nl u])
    then show ?thesis
      by (simp add: Suc.hyps(1) [OF m] up)
  qed
qed

lemma collect_points_radar1_eq:
  "collect_points_radar1 buf (idx + 48) [j..<n] acc =
     (if n \<le> j \<or> n \<le> records_present buf idx
      then Inr (acc @ filter valid_point (map (record_at buf idx) [j..<n]))
      else Inl StructError)"
proof (induction "n - j" arbitrary: j acc)
  case 0
  then show ?case by simp
next
  case (Suc m)
  then have jn: "j < n" and m: "m = n - Suc j" by arith+
  have l: "[j..<n] = j # [Suc j..<n]"
    using jn by (simp add: upt_conv_Cons)
  show ?case
  proof (cases "records_present buf idx \<le> j")
    case True
    then have "length (slice buf (idx + 48 + j * 16) (idx + 48 + j * 16 + 16)) < 16"
      by (simp only: record_absent)
    then have "unpack_4f (slice buf (idx + 48 + j * 16) (idx + 48 + j * 16 + 16)) = Inl StructError"
      by (simp add: unpack_4f_def)
    then have "collect_points_radar1 buf (idx + 48) (j # [Suc j..<n]) acc = Inl StructError"
      by (rule collect_points_radar1_absent)
    then have "collect_points_radar1 buf (idx + 48) [j..<n] acc = Inl StructError"
      by (subst l)
    then show ?thesis using True jn by simp
  next
    case False
    then have pres: "idx + 48 + 16 * j + 16 \<le> length buf"
      by (simp add: records_present_def)
    have u: "unpack_4f (slice buf (idx + 48 + j * 16) (idx + 48 + j * 16 + 16)) = Inr (record_at buf idx j)"
      using unpack_4f_record [OF pres] by (simp add: mult.commute)
    have step: "collect_points_radar1 buf (idx + 48) [j..<n] acc =
          collect_points_radar1 buf (idx + 48) [Suc j..<n]
            (if valid_point (record_at buf idx j) then acc @ [record_at buf idx j] else acc)"
      by (subst l) (rule collect_points_radar1_present [OF u])
    show ?thesis
      unfolding step using jn False by (simp add: Suc.hyps(1) [OF m] upt_conv_Cons [of j n])
  qed
qed

lemma unpack_7I_header:
  "unpack_7I (slice (slice buf idx (idx + 40)) 8 36) = Inl StructError \<longleftrightarrow> length buf < idx + 36"
  by (auto simp add: unpack_7I_def slice_length min_def)

lemma unpack_2I_short:
  "length buf < idx + 48 \<Longrightarrow> unpack_2I (slice buf (idx + 40) (idx + 48)) = Inl StructError"
  by (simp add: unpack_2I_def slice_length min_def)

lemma unpack_2I_tlv:
  "idx + 48 \<le> length buf \<Longrightarrow>
   unpack_2I (slice buf (idx + 40) (idx + 48)) = Inr (tlv_type_at buf idx, tlv_length_at buf idx)"
  by (simp add: unpack_2I_def slice_length slice_slice tlv_type_at_def tlv_length_at_def add.assoc)

lemma header_cases:
  obtains (bad) "unpack_7I (slice (slice buf idx (idx + 40)) 8 36) = Inl StructError"
    | (ok) fields where "unpack_7I (slice (slice buf idx (idx + 40)) 8 36) = Inr fields"
      "length buf \<ge> idx + 36"
  using unpack_7I_header [of buf idx]
  by (cases "unpack_7I (slice (slice buf idx (idx + 40)) 8 36)") (auto simp add: unpack_7I_def split: if_splits)

lemma parse_body_radar_short:
  assumes "bytes_index buf MAGIC_WORD = Inr idx" and "length buf < idx + 48"
  shows "parse_body_radar buf = Inl StructError"
proof (cases rule: header_cases [of buf idx])
  case bad
  then show ?thesis using assms by (simp add: parse_body_radar_def)
next
  case (ok fields)
  then show ?thesis using assms unpack_2I_short [OF assms(2)]
    by (simp add: parse_body_radar_def)
qed

lemma parse_body_radar_ok:
  assumes "bytes_index buf MAGIC_WORD = Inr idx" and "idx + 48 \<le> length buf"
  shows "parse_body_radar buf =
    Inr (if 1000 < num_points_at buf idx then Empty_0x4
         else Array (filter valid_point (map (record_at buf idx)
                [0..<min (num_points_at buf idx) (records_present buf idx)])))"
proof (cases rule: header_cases [of buf idx])
  case bad
  then have "length buf < idx + 36" by (simp only: unpack_7I_header)
  then show ?thesis using assms by simp
next
  case (ok fields)
  then show ?thesis using assms unpack_2I_tlv [OF assms(2)]
    by (simp add: parse_body_radar_def range_step_16 collect_points_radar_eq num_points_at_def)
qed

lemma parse_body_radar1_short:
  assumes "bytes_index buf MAGIC_WORD = Inr idx" and "length buf < idx + 48"
  shows "parse_body_radar1 buf = Inl StructError"
proof (cases rule: header_cases [of buf idx])
  case bad
  then show ?thesis using assms by (simp add: parse_body_radar1_def)
next
  case (ok fields)
  then show ?thesis using assms unpack_2I_short [OF assms(2)]
    by (simp add: parse_body_radar1_def)
qed

lemma parse_body_radar1_ok:
  assumes "bytes_index buf MAGIC_WORD = Inr idx" and "idx + 48 \<le> length buf"
  shows "parse_body_radar1 buf =
    (if tlv_type_at buf idx \<noteq> 1 then Inr Empty_0x4
     else if 1000 < num_points_at buf idx then Inr Empty_0x4
     else if num_points_at buf idx \<le> records_present buf idx
     then Inr (Array (filter valid_point (map (record_at buf idx) [0..<num_points_at buf idx])))
     else Inl StructError)"
proof (cases rule: header_cases [of buf idx])
  case bad
  then have "length buf < idx + 36" by (simp only: unpack_7I_header)
  then show ?thesis using assms by simp
next
  case (ok fields)
  then show ?thesis using assms unpack_2I_tlv [OF assms(2)]
    by (simp add: parse_body_radar1_def collect_points_radar1_eq num_points_at_def)
qed

lemma collect_points_iwr1843_radar:
  "collect_points_iwr1843 buf st offs acc = collect_points_radar buf st offs acc"
  by (induction offs arbitrary: acc) (auto simp add: Let_def split: sum.splits)

lemma collect_points_radar2_radar1:
  "collect_points_radar2 buf st js acc = collect_points_radar1 buf st js acc"
  by (induction js arbitrary: acc) (auto split: sum.splits)

lemma parse_body_iwr1843_radar: "parse_body_iwr1843 buf = parse_body_radar buf"
  unfolding parse_body_iwr1843_def parse_body_radar_def collect_points_iwr1843_radar ..

lemma parse_body_radar2_radar1: "parse_body_radar2 buf = parse_body_radar1 buf"
  unfolding parse_body_radar2_def parse_body_radar1_def collect_points_radar2_radar1 ..

section \<open>What the decoders return\<close>

lemma slice_prefix:
  "b \<le> n \<Longrightarrow> n \<le> length buf \<Longrightarrow> slice (take n buf @ rest) a b = slice buf a b"
  by (simp add: slice_def min_def take_drop)

lemma bytes_index_empty: "bytes_index xs [] = Inr 0"
  by (cases xs) simp_all

lemma bytes_index_hit: "take (length sub) xs = sub \<Longrightarrow> bytes_index xs sub = Inr 0"
  by (cases xs) auto

lemma bytes_index_prefix:
  "bytes_index buf sub = Inr i \<Longrightarrow> i + length sub \<le> n \<Longrightarrow>
   bytes_index (take n buf @ rest) sub = Inr i"
proof (induction buf arbitrary: i n)
  case Nil
  then show ?case by (simp add: bytes_index_empty split: if_splits)
next
  case (Cons b bs)
  from bytes_index_Inr [OF Cons.prems(1)] have len: "i + length sub \<le> length (b # bs)" by simp
  show ?case
  proof (cases "take (length sub) (b # bs) = sub")
    case True
    with Cons.prems have i: "i = 0" by simp
    have "take (length sub) (take n (b # bs) @ rest) = take (length sub) (b # bs)"
      using Cons.prems(2) len i by (simp add: min_def)
    with True have "take (length sub) (take n (b # bs) @ rest) = sub" by simp
    then show ?thesis using i by (simp only: bytes_index_hit)
  next
    case False
    with Cons.prems obtain j where j: "bytes_index bs sub = Inr j" "i = Suc j"
      by (auto split: sum.splits)
    from j(2) Cons.prems(2) obtain m where m: "n = Suc m" "j + length sub \<le> m"
      by (cases n) auto
    have "take (length sub) (take n (b # bs) @ rest) = take (length sub) (b # bs)"
      using Cons.prems(2) len j(2) by (simp add: min_def)
    with False have ne: "take (length sub) (b # take m bs @ rest) \<noteq> sub"
      using m(1) by simp
    from Cons.IH [OF j(1) m(2)] have "bytes_index (take m bs @ rest) sub = Inr j" .
    then show ?thesis using ne m(1) j(2) by simp
  qed
qed

lemma prefix_fields:
  assumes "idx + 48 \<le> n" "n \<le> length buf"
  shows "tlv_type_at (take n buf @ rest) idx = tlv_type_at buf idx"
    and "tlv_length_at (take n buf @ rest) idx = tlv_length_at buf idx"
    and "num_points_at (take n buf @ rest) idx = num_points_at buf idx"
  using assms by (simp_all add: tlv_type_at_def tlv_length_at_def num_points_at_def slice_prefix)

lemma prefix_record:
  assumes "idx + 48 + 16 * i + 16 \<le> n" "n \<le> length buf"
  shows "record_at (take n buf @ rest) idx i = record_at buf idx i"
  using assms by (simp add: record_at_def slice_prefix)

lemma records_present_ge:
  "idx + 48 + 16 * k \<le> length buf \<Longrightarrow> k \<le> records_present buf idx"
  by (simp add: records_present_def)

lemma parse_pointcloud_radar_eq:
  "parse_pointcloud_radar buf = Inr (case parse_body_radar buf of Inl e \<Rightarrow> Empty_0x4 | Inr a \<Rightarrow> a)"
  by (simp add: parse_pointcloud_radar_def try_except_def split: sum.splits)

lemma parse_pointcloud_radar1_eq:
  "parse_pointcloud_radar1 buf = Inr (case parse_body_radar1 buf of Inl e \<Rightarrow> Empty_0x4 | Inr a \<Rightarrow> a)"
  by (simp add: parse_pointcloud_radar1_def try_except_def split: sum.splits)

lemma parse_pointcloud_iwr1843_radar: "parse_pointcloud_iwr1843 buf = parse_pointcloud_radar buf"
  by (simp add: parse_pointcloud_iwr1843_def parse_pointcloud_radar_def parse_body_iwr1843_radar)

lemma parse_pointcloud_radar2_radar1: "parse_pointcloud_radar2 buf = parse_pointcloud_radar1 buf"
  by (simp add: parse_pointcloud_radar2_def parse_pointcloud_radar1_def parse_body_radar2_radar1)

lemma parse_pointcloud_radar_ok:
  assumes "bytes_index buf MAGIC_WORD = Inr idx" and "idx + 48 \<le> length buf"
  shows "parse_pointcloud_radar buf =
    Inr (if 1000 < num_points_at buf idx then Empty_0x4
         else Array (filter valid_point (map (record_at buf idx)
                [0..<min (num_points_at buf idx) (records_present buf idx)])))"
  by (simp add: parse_pointcloud_radar_eq parse_body_radar_ok [OF assms])

lemma parse_pointcloud_radar1_ok:
  assumes "bytes_index buf MAGIC_WORD = Inr idx" and "idx + 48 \<le> length buf"
  shows "parse_pointcloud_radar1 buf =
    Inr (if tlv_type_at buf idx \<noteq> 1 then Empty_0x4
         else if 1000 < num_points_at buf idx then Empty_0x4
         else if num_points_at buf idx \<le> records_present buf idx
         then Array (filter valid_point (map (record_at buf idx) [0..<num_points_at buf idx]))
         else Empty_0x4)"
  by (simp add: parse_pointcloud_radar1_eq parse_body_radar1_ok [OF assms])

lemma parse_pointcloud_radar_short:
  assumes "bytes_index buf MAGIC_WORD = Inr idx" and "length buf < idx + 48"
  shows "parse_pointcloud_radar buf = Inr Empty_0x4"
  by (simp add: parse_pointcloud_radar_eq parse_body_radar_short [OF assms])

lemma parse_pointcloud_radar1_short:
  assumes "bytes_index buf MAGIC_WORD = Inr idx" and "length buf < idx + 48"
  shows "parse_pointcloud_radar1 buf = Inr Empty_0x4"
  by (simp add: parse_pointcloud_radar1_eq parse_body_radar1_short [OF assms])

lemma parse_pointcloud_no_marker:
  assumes "bytes_index buf MAGIC_WORD = Inl e"
  shows "parse_pointcloud_radar buf = Inr Empty_0x4" and "parse_pointcloud_radar1 buf = Inr Empty_0x4"
  using assms
  by (simp_all add: parse_pointcloud_radar_eq parse_pointcloud_radar1_eq
        parse_body_radar_def parse_body_radar1_def)

section \<open>The sample frames, field by field\<close>

lemmas sample_defs = sample_header_def MAGIC_WORD_def record_one_def record_zero_def
  record_neg_zero_def point_one_def point_neg_zero_def

lemmas field_defs = tlv_type_at_def tlv_length_at_def num_points_at_def record_at_def
  records_present_def slice_def le_u32_def

lemma frame_capped_facts:
  "bytes_index frame_capped MAGIC_WORD = Inr 0"
  "0 + 48 \<le> length frame_capped"
  "unat (tlv_length_at frame_capped 0) div 16 = 1001"
  by (simp_all add: frame_capped_def sample_defs field_defs)

lemma frame_three_facts:
  "bytes_index frame_three MAGIC_WORD = Inr 0"
  "num_points_at frame_three 0 \<le> 1000"
  "0 + 48 + 16 * num_points_at frame_three 0 \<le> length frame_three"
  "num_points_at frame_three 0 = 3"
  "tlv_type_at frame_three 0 = 1"
  "record_at frame_three 0 0 = point_one"
  "record_at frame_three 0 1 = (0, 0, 0, 0)"
  "record_at frame_three 0 2 = point_one"
  by (simp_all add: frame_three_def sample_defs field_defs)

lemma frame_neg_zero_facts:
  "bytes_index frame_neg_zero MAGIC_WORD = Inr 0"
  "num_points_at frame_neg_zero 0 = 1"
  "0 + 48 + 16 * 1 \<le> length frame_neg_zero"
  "record_at frame_neg_zero 0 0 = point_neg_zero"
  by (simp_all add: frame_neg_zero_def sample_defs field_defs)

lemma frame_type2_facts:
  "bytes_index frame_type2 MAGIC_WORD = Inr 0"
  "0 + 48 \<le> length frame_type2"
  "tlv_type_at frame_type2 0 = 2"
  "num_points_at frame_type2 0 = 1"
  "records_present frame_type2 0 = 1"
  "record_at frame_type2 0 0 = point_one"
  by (simp_all add: frame_type2_def sample_defs field_defs)

lemma frame_truncated_facts:
  "bytes_index frame_truncated MAGIC_WORD = Inr 0"
  "0 + 48 \<le> length frame_truncated"
  "tlv_type_at frame_truncated 0 = 1"
  "num_points_at frame_truncated 0 = 2"
  "records_present frame_truncated 0 = 1"
  "record_at frame_truncated 0 0 = point_one"
  by (simp_all add: frame_truncated_def sample_defs field_defs)

lemma frame_remainder_facts:
  "bytes_index frame_remainder MAGIC_WORD = Inr 0"
  "0 + 48 \<le> length frame_remainder"
  "tlv_type_at frame_remainder 0 = 1"
  "unat (tlv_length_at frame_remainder 0) = 24"
  "records_present frame_remainder 0 = 1"
  "record_at frame_remainder 0 0 = point_one"
  "length frame_remainder = 72"
  by (simp_all add: frame_remainder_def sample_defs field_defs)

lemma frame_short_facts:
  "bytes_index frame_short MAGIC_WORD = Inr 0"
  "length frame_short < 0 + 40"
  "frame_short \<noteq> []"
  by (simp_all add: frame_short_def sample_defs)

lemma valid_point_samples:
  "valid_point point_one" "\<not> valid_point (0, 0, 0, 0)" "\<not> valid_point point_neg_zero"
  "valid_point_bitwise point_neg_zero"
  by (simp_all add: sample_defs triple_ne_zero_def float_eq_zero_def)

lemma parse_frame_truncated:
  "parse_pointcloud_radar frame_truncated = Inr (Array [point_one])"
  "parse_pointcloud_radar1 frame_truncated = Inr Empty_0x4"
  by (simp_all add: parse_pointcloud_radar_ok [OF frame_truncated_facts(1,2)]
      parse_pointcloud_radar1_ok [OF frame_truncated_facts(1,2)]
      frame_truncated_facts valid_point_samples)

lemma parse_frame_type2:
  "parse_pointcloud_radar frame_type2 = Inr (Array [point_one])"
  "parse_pointcloud_radar1 frame_type2 = Inr Empty_0x4"
  by (simp_all add: parse_pointcloud_radar_ok [OF frame_type2_facts(1,2)]
      parse_pointcloud_radar1_ok [OF frame_type2_facts(1,2)]
      frame_type2_facts valid_point_samples)

lemma parse_frame_short:
  "parse_pointcloud_radar frame_short = Inr Empty_0x4"
  "parse_pointcloud_radar1 frame_short = Inr Empty_0x4"
  using frame_short_facts(2)
  by (simp_all add: parse_pointcloud_radar_short [OF frame_short_facts(1)]
      parse_pointcloud_radar1_short [OF frame_short_facts(1)])

lemma frame_below_cap_facts:
  "bytes_index frame_below_cap MAGIC_WORD = Inr 0"
  "0 + 48 \<le> length frame_below_cap"
  "unat (tlv_length_at frame_below_cap 0) = 16015"
  "records_present frame_below_cap 0 = 1"
  "record_at frame_below_cap 0 0 = point_one"
  by (simp_all add: frame_below_cap_def sample_defs field_defs)





lemma is_connected_samples:
  "is_connected connected_idle" "\<not> capturing connected_idle"
  "is_connected capturing_state" "capturing capturing_state" "running capturing_state"
  "buffer capturing_state = []" "delivered capturing_state = []"
  by (simp_all add: is_connected_def connected_idle_def capturing_state_def)

section \<open>The corruption cap\<close>

text \<open>
  Claim C2.  In a buffer that holds the synchronisation word and the whole TLV header after
  it, a TLV length whose sixteenth exceeds 1000 makes every decoder return the empty
  0-by-4 array as a normal result (never an exception), whatever follows the header: the
  same holds when the bytes after offset 48 are replaced by any others.
\<close>

theorem C2_cap_returns_empty:
  assumes "bytes_index buf MAGIC_WORD = Inr idx"
    and "idx + 48 \<le> length buf"
    and "1000 < unat (tlv_length_at buf idx) div 16"
  shows "parse_pointcloud_radar buf = Inr Empty_0x4
       \<and> parse_pointcloud_radar2 buf = Inr Empty_0x4
       \<and> parse_pointcloud_radar1 buf = Inr Empty_0x4
       \<and> parse_pointcloud_iwr1843 buf = Inr Empty_0x4
       \<and> parse_pointcloud_radar (take (idx + 48) buf @ rest) = Inr Empty_0x4
       \<and> parse_pointcloud_radar2 (take (idx + 48) buf @ rest) = Inr Empty_0x4"
proof -
  let ?buf' = "take (idx + 48) buf @ rest"
  from bytes_index_Inr [OF assms(1)] have "idx + length MAGIC_WORD \<le> idx + 48"
    by (simp add: MAGIC_WORD_def)
  then have i': "bytes_index ?buf' MAGIC_WORD = Inr idx"
    by (rule bytes_index_prefix [OF assms(1)])
  have l': "idx + 48 \<le> length ?buf'" using assms(2) by simp
  have n: "1000 < num_points_at buf idx" using assms(3) by (simp add: num_points_at_def)
  have n': "1000 < num_points_at ?buf' idx"
    using n by (simp add: prefix_fields(3) [OF le_refl assms(2)])
  show ?thesis
    using n n'
    by (simp add: parse_pointcloud_radar_ok [OF assms(1,2)] parse_pointcloud_radar1_ok [OF assms(1,2)]
        parse_pointcloud_radar_ok [OF i' l'] parse_pointcloud_radar1_ok [OF i' l']
        parse_pointcloud_radar2_radar1 parse_pointcloud_iwr1843_radar)
qed

text \<open>The cap at work on a frame that announces 1001 records.\<close>

theorem C2_cap_returns_empty_witness:
  "bytes_index frame_capped MAGIC_WORD = Inr 0
   \<and> 0 + 48 \<le> length frame_capped
   \<and> unat (tlv_length_at frame_capped 0) div 16 = 1001
   \<and> parse_pointcloud_radar frame_capped = Inr Empty_0x4
   \<and> parse_pointcloud_radar2 frame_capped = Inr Empty_0x4
   \<and> parse_pointcloud_radar2 (take (0 + 48) frame_capped @ record_zero) = Inr Empty_0x4"
proof -
  have h3: "1000 < unat (tlv_length_at frame_capped 0) div 16"
    by (simp only: frame_capped_facts(3))
  from C2_cap_returns_empty [OF frame_capped_facts(1,2) h3, of record_zero] frame_capped_facts
  show ?thesis by blast
qed

section \<open>The zero-triple filter\<close>

text \<open>
  Claim C1 as stated fails on this input: the frame carries one record whose \<open>x\<close> is
  \<open>-0.0\<close> (bits \<open>0x80000000\<close>).  Compared bit for bit with zero the record is valid,
  yet \<open>radar.py\<close> drops it, because \<open>-0.0 == 0\<close> holds for Python floats.
\<close>

theorem C1_bit_comparison_counterexample:
  "bytes_index frame_neg_zero MAGIC_WORD = Inr 0
   \<and> num_points_at frame_neg_zero 0 = 1
   \<and> 0 + 48 + 16 * 1 \<le> length frame_neg_zero
   \<and> filter valid_point_bitwise (map (record_at frame_neg_zero 0) [0..<1]) = [point_neg_zero]
   \<and> parse_pointcloud_radar frame_neg_zero = Inr (Array [])"
proof -
  have l: "0 + 48 \<le> length frame_neg_zero" using frame_neg_zero_facts(3) by simp
  have p: "records_present frame_neg_zero 0 \<ge> 1"
    using frame_neg_zero_facts(3) by (intro records_present_ge) simp
  have "parse_pointcloud_radar frame_neg_zero = Inr (Array [])"
    using p by (simp add: parse_pointcloud_radar_ok [OF frame_neg_zero_facts(1) l]
        frame_neg_zero_facts valid_point_samples min_def)
  then show ?thesis
    using frame_neg_zero_facts valid_point_samples by simp
qed

lemma length_filter_complement:
  "length (filter P xs) = length xs - length (filter (\<lambda>x. \<not> P x) xs)"
  using sum_length_filter_compl [of P xs] by arith

text \<open>
  Claim C1, amended.  When all \<open>N = tlv_length div 16\<close> records of a frame are present and
  \<open>N\<close> is at most 1000, \<open>radar.py\<close> returns exactly the records whose coordinate triple is
  not numerically zero, in wire order; their number is \<open>N\<close> minus the number of zero
  triples.  A coordinate counts as zero when it is \<open>+0.0\<close> or \<open>-0.0\<close> (exact IEEE-754
  equality, no tolerance), and the velocity plays no part in the test.
\<close>

theorem C1_numeric_zero_filter:
  assumes "bytes_index buf MAGIC_WORD = Inr idx"
    and "num_points_at buf idx \<le> 1000"
    and "idx + 48 + 16 * num_points_at buf idx \<le> length buf"
  shows "parse_pointcloud_radar buf =
           Inr (Array (filter valid_point (map (record_at buf idx) [0..<num_points_at buf idx])))
       \<and> (\<forall>a. parse_pointcloud_radar buf = Inr a \<longrightarrow>
              len a = num_points_at buf idx
                - length (filter (\<lambda>p. \<not> valid_point p) (map (record_at buf idx) [0..<num_points_at buf idx])))
       \<and> (valid_point (x, y, z, vel) \<longleftrightarrow>
             \<not> ((x = 0 \<or> x = 0x80000000) \<and> (y = 0 \<or> y = 0x80000000) \<and> (z = 0 \<or> z = 0x80000000)))
       \<and> valid_point (x, y, z, vel) = valid_point (x, y, z, vel')"
proof -
  have l: "idx + 48 \<le> length buf" using assms(3) by simp
  have p: "num_points_at buf idx \<le> records_present buf idx"
    using assms(3) by (rule records_present_ge)
  have r: "parse_pointcloud_radar buf =
           Inr (Array (filter valid_point (map (record_at buf idx) [0..<num_points_at buf idx])))"
    using assms(2) p by (simp add: parse_pointcloud_radar_ok [OF assms(1) l] min_def)
  have c: "length (filter valid_point (map (record_at buf idx) [0..<num_points_at buf idx])) =
        num_points_at buf idx
          - length (filter (\<lambda>p. \<not> valid_point p) (map (record_at buf idx) [0..<num_points_at buf idx]))"
    using length_filter_complement [of valid_point "map (record_at buf idx) [0..<num_points_at buf idx]"]
    by simp
  have v: "valid_point (x, y, z, vel) \<longleftrightarrow>
             \<not> ((x = 0 \<or> x = 0x80000000) \<and> (y = 0 \<or> y = 0x80000000) \<and> (z = 0 \<or> z = 0x80000000))"
    by (simp add: triple_ne_zero_def float_eq_zero_def)
  have w: "valid_point (x, y, z, vel) = valid_point (x, y, z, vel')" by simp
  from c have c': "\<forall>a. parse_pointcloud_radar buf = Inr a \<longrightarrow>
              len a = num_points_at buf idx
                - length (filter (\<lambda>p. \<not> valid_point p) (map (record_at buf idx) [0..<num_points_at buf idx]))"
    unfolding r by auto
  from r c' v w show ?thesis by blast
qed

text \<open>Three records of which the second is all zero: the first and the third are returned.\<close>

theorem C1_numeric_zero_filter_witness:
  "bytes_index frame_three MAGIC_WORD = Inr 0
   \<and> num_points_at frame_three 0 \<le> 1000
   \<and> 0 + 48 + 16 * num_points_at frame_three 0 \<le> length frame_three
   \<and> parse_pointcloud_radar frame_three = Inr (Array [point_one, point_one])"
proof -
  have u: "[0..<3] = [0, 1, 2]" by (simp add: upt_rec)
  from C1_numeric_zero_filter [OF frame_three_facts(1,2,3)]
  have "parse_pointcloud_radar frame_three =
     Inr (Array (filter valid_point (map (record_at frame_three 0) [0..<num_points_at frame_three 0])))"
    by blast
  then have "parse_pointcloud_radar frame_three = Inr (Array [point_one, point_one])"
    using frame_three_facts(6,7,8)
    by (simp add: frame_three_facts(4) u valid_point_samples triple_ne_zero_def float_eq_zero_def)
  with frame_three_facts(1,2,3) show ?thesis by blast
qed

section \<open>Truncated frames\<close>

text \<open>
  Claim C3.  A frame that announces two records but holds only the first one completely:
  \<open>radar.py\<close> and \<open>iwr1843.py\<close> return that record, \<open>radar1.py\<close> and \<open>radar2.py\<close>
  return the empty 0-by-4 array, since their loop has no length test and the
  \<open>struct.error\<close> is swallowed by the handler.
\<close>

theorem C3_truncated_frame_lost:
  "parse_pointcloud_radar2 frame_truncated = Inr Empty_0x4
   \<and> parse_pointcloud_radar1 frame_truncated = Inr Empty_0x4
   \<and> parse_pointcloud_radar frame_truncated = Inr (Array [point_one])
   \<and> parse_pointcloud_iwr1843 frame_truncated = Inr (Array [point_one])"
  by (simp add: parse_frame_truncated parse_pointcloud_radar2_radar1 parse_pointcloud_iwr1843_radar)

text \<open>
  The two behaviours in general: with fewer records present than announced, \<open>radar.py\<close>
  keeps the records that are completely there, \<open>radar1.py\<close> keeps nothing.
\<close>

lemma partial_tail_radar:
  assumes "bytes_index buf MAGIC_WORD = Inr idx" and "idx + 48 \<le> length buf"
    and "num_points_at buf idx \<le> 1000" and "records_present buf idx < num_points_at buf idx"
  shows "parse_pointcloud_radar buf =
           Inr (Array (filter valid_point (map (record_at buf idx) [0..<records_present buf idx])))"
  using assms(3,4) by (simp add: parse_pointcloud_radar_ok [OF assms(1,2)] min_def)

lemma partial_tail_radar1:
  assumes "bytes_index buf MAGIC_WORD = Inr idx" and "idx + 48 \<le> length buf"
    and "num_points_at buf idx \<le> 1000" and "records_present buf idx < num_points_at buf idx"
  shows "parse_pointcloud_radar1 buf = Inr Empty_0x4"
  using assms(3,4) by (simp add: parse_pointcloud_radar1_ok [OF assms(1,2)])

section \<open>The four copies compared\<close>

text \<open>
  Claim C6 as stated fails on this input: for a frame of TLV type 2 with one record,
  \<open>radar.py\<close> returns the record and \<open>radar1.py\<close> the empty array.
\<close>

theorem C6_type2_counterexample:
  "parse_pointcloud_radar frame_type2 \<noteq> parse_pointcloud_radar1 frame_type2"
  by (simp add: parse_frame_type2)

text \<open>
  Claim C6, amended.  \<open>iwr1843.py\<close> decodes every buffer as \<open>radar.py\<close> does, and
  \<open>radar2.py\<close> as \<open>radar1.py\<close> does.  The two pairs return the same array for a frame
  of TLV type 1 whose announced records are all present (or whose count exceeds the cap);
  for any other TLV type the second pair returns the empty array.
\<close>

theorem C6_copies_agree:
  "parse_pointcloud_iwr1843 buf = parse_pointcloud_radar buf
   \<and> parse_pointcloud_radar2 buf = parse_pointcloud_radar1 buf
   \<and> (bytes_index buf MAGIC_WORD = Inr idx \<and> idx + 48 \<le> length buf
        \<and> tlv_type_at buf idx = 1
        \<and> (1000 < num_points_at buf idx \<or> num_points_at buf idx \<le> records_present buf idx)
      \<longrightarrow> parse_pointcloud_radar1 buf = parse_pointcloud_radar buf)
   \<and> (bytes_index buf MAGIC_WORD = Inr idx \<and> idx + 48 \<le> length buf
        \<and> tlv_type_at buf idx \<noteq> 1
      \<longrightarrow> parse_pointcloud_radar1 buf = Inr Empty_0x4)"
proof -
  have a: "parse_pointcloud_radar1 buf = parse_pointcloud_radar buf"
    if "bytes_index buf MAGIC_WORD = Inr idx" "idx + 48 \<le> length buf" "tlv_type_at buf idx = 1"
      "1000 < num_points_at buf idx \<or> num_points_at buf idx \<le> records_present buf idx"
    using that(3,4)
    by (auto simp add: parse_pointcloud_radar_ok [OF that(1,2)]
        parse_pointcloud_radar1_ok [OF that(1,2)] min_def)
  have b: "parse_pointcloud_radar1 buf = Inr Empty_0x4"
    if "bytes_index buf MAGIC_WORD = Inr idx" "idx + 48 \<le> length buf" "tlv_type_at buf idx \<noteq> 1"
    using that(3) by (simp add: parse_pointcloud_radar1_ok [OF that(1,2)])
  show ?thesis
    using a b by (simp only: parse_pointcloud_iwr1843_radar parse_pointcloud_radar2_radar1) blast
qed

text \<open>The agreement on the three-record frame, the type test on the type-2 frame.\<close>

theorem C6_copies_agree_witness:
  "bytes_index frame_three MAGIC_WORD = Inr 0 \<and> 0 + 48 \<le> length frame_three
   \<and> tlv_type_at frame_three 0 = 1
   \<and> (1000 < num_points_at frame_three 0 \<or> num_points_at frame_three 0 \<le> records_present frame_three 0)
   \<and> parse_pointcloud_radar1 frame_three = parse_pointcloud_radar frame_three
   \<and> parse_pointcloud_iwr1843 frame_three = parse_pointcloud_radar frame_three
   \<and> parse_pointcloud_radar2 frame_three = parse_pointcloud_radar1 frame_three
   \<and> bytes_index frame_type2 MAGIC_WORD = Inr 0 \<and> 0 + 48 \<le> length frame_type2
   \<and> tlv_type_at frame_type2 0 \<noteq> 1
   \<and> parse_pointcloud_radar1 frame_type2 = Inr Empty_0x4"
proof -
  have l: "0 + 48 \<le> length frame_three" using frame_three_facts(3) by simp
  have p: "num_points_at frame_three 0 \<le> records_present frame_three 0"
    using frame_three_facts(3) by (rule records_present_ge)
  have t: "tlv_type_at frame_type2 0 \<noteq> 1" by (simp add: frame_type2_facts(3))
  from C6_copies_agree [of frame_three 0] C6_copies_agree [of frame_type2 0]
    frame_three_facts(1,5) l p frame_type2_facts(1,2) t
  show ?thesis by blast
qed

section \<open>Totality of the decoders\<close>

lemma parse_body_no_marker:
  assumes "bytes_index buf MAGIC_WORD = Inl e"
  shows "parse_body_radar buf = Inl e" and "parse_body_radar1 buf = Inl e"
  using assms by (simp_all add: parse_body_radar_def parse_body_radar1_def)

text \<open>
  Claim C9.  For every buffer each of the four decoders returns an array as a normal
  result, never an exception; whenever the body of the \<open>try\<close> block raises, the result
  is the empty 0-by-4 array.  A buffer without the synchronisation word raises
  \<open>ValueError\<close> inside, a header or TLV header cut short raises \<open>struct.error\<close>
  inside, and both end as the empty array.
\<close>

theorem C9_parse_pointcloud_total:
  "(\<exists>a. parse_pointcloud_radar buf = Inr a)
   \<and> (\<exists>a. parse_pointcloud_radar1 buf = Inr a)
   \<and> (\<exists>a. parse_pointcloud_radar2 buf = Inr a)
   \<and> (\<exists>a. parse_pointcloud_iwr1843 buf = Inr a)
   \<and> (parse_body_radar buf = Inl e \<longrightarrow> parse_pointcloud_radar buf = Inr Empty_0x4)
   \<and> (parse_body_radar1 buf = Inl e \<longrightarrow> parse_pointcloud_radar1 buf = Inr Empty_0x4)
   \<and> (parse_body_radar2 buf = Inl e \<longrightarrow> parse_pointcloud_radar2 buf = Inr Empty_0x4)
   \<and> (parse_body_iwr1843 buf = Inl e \<longrightarrow> parse_pointcloud_iwr1843 buf = Inr Empty_0x4)
   \<and> (bytes_index buf MAGIC_WORD = Inl e \<longrightarrow>
        parse_body_radar buf = Inl e \<and> parse_body_radar2 buf = Inl e \<and> parse_body_iwr1843 buf = Inl e)
   \<and> (bytes_index buf MAGIC_WORD = Inr idx \<and> length buf < idx + 48 \<longrightarrow>
        parse_body_radar buf = Inl StructError \<and> parse_body_radar2 buf = Inl StructError
        \<and> parse_body_iwr1843 buf = Inl StructError)"
proof -
  have t: "(\<exists>a. parse_pointcloud_radar buf = Inr a) \<and> (\<exists>a. parse_pointcloud_radar1 buf = Inr a)
     \<and> (\<exists>a. parse_pointcloud_radar2 buf = Inr a) \<and> (\<exists>a. parse_pointcloud_iwr1843 buf = Inr a)"
    by (simp add: parse_pointcloud_radar2_radar1 parse_pointcloud_iwr1843_radar
        parse_pointcloud_radar_eq parse_pointcloud_radar1_eq)
  have f: "(parse_body_radar buf = Inl e \<longrightarrow> parse_pointcloud_radar buf = Inr Empty_0x4)
     \<and> (parse_body_radar1 buf = Inl e \<longrightarrow> parse_pointcloud_radar1 buf = Inr Empty_0x4)
     \<and> (parse_body_radar2 buf = Inl e \<longrightarrow> parse_pointcloud_radar2 buf = Inr Empty_0x4)
     \<and> (parse_body_iwr1843 buf = Inl e \<longrightarrow> parse_pointcloud_iwr1843 buf = Inr Empty_0x4)"
    by (simp add: parse_pointcloud_radar_def parse_pointcloud_radar1_def parse_pointcloud_radar2_def
        parse_pointcloud_iwr1843_def try_except_def)
  have n: "bytes_index buf MAGIC_WORD = Inl e \<longrightarrow>
        parse_body_radar buf = Inl e \<and> parse_body_radar2 buf = Inl e \<and> parse_body_iwr1843 buf = Inl e"
    by (simp add: parse_body_no_marker parse_body_radar2_radar1 parse_body_iwr1843_radar)
  have s: "bytes_index buf MAGIC_WORD = Inr idx \<and> length buf < idx + 48 \<longrightarrow>
        parse_body_radar buf = Inl StructError \<and> parse_body_radar2 buf = Inl StructError
        \<and> parse_body_iwr1843 buf = Inl StructError"
    by (simp add: parse_body_radar_short parse_body_radar1_short parse_body_radar2_radar1
        parse_body_iwr1843_radar)
  from t f n s show ?thesis by blast
qed

text \<open>The empty buffer has no synchronisation word; the short frame has no TLV header.\<close>

theorem C9_parse_pointcloud_total_witness:
  "bytes_index [] MAGIC_WORD = Inl ValueError
   \<and> parse_body_radar [] = Inl ValueError
   \<and> parse_pointcloud_radar [] = Inr Empty_0x4
   \<and> parse_pointcloud_radar2 [] = Inr Empty_0x4
   \<and> parse_pointcloud_iwr1843 [] = Inr Empty_0x4
   \<and> bytes_index frame_short MAGIC_WORD = Inr 0 \<and> length frame_short < 0 + 48
   \<and> parse_body_radar2 frame_short = Inl StructError
   \<and> parse_pointcloud_radar2 frame_short = Inr Empty_0x4"
proof -
  have a: "bytes_index [] MAGIC_WORD = Inl ValueError" by (simp add: MAGIC_WORD_def)
  have b: "length frame_short < 0 + 48" using frame_short_facts(2) by simp
  from C9_parse_pointcloud_total [of "[]" ValueError] a
  have 1: "parse_body_radar [] = Inl ValueError \<and> parse_pointcloud_radar [] = Inr Empty_0x4
     \<and> parse_pointcloud_radar2 [] = Inr Empty_0x4 \<and> parse_pointcloud_iwr1843 [] = Inr Empty_0x4"
    by blast
  from C9_parse_pointcloud_total [of frame_short StructError 0] frame_short_facts(1) b
  have 2: "parse_body_radar2 frame_short = Inl StructError
     \<and> parse_pointcloud_radar2 frame_short = Inr Empty_0x4"
    by blast
  from 1 2 a b frame_short_facts(1) show ?thesis by blast
qed

section \<open>The point count\<close>

text \<open>
  Replacing everything after the last announced record changes nothing: the decoders never
  read beyond offset \<open>48 + 16 * (tlv_length div 16)\<close>.
\<close>

lemma prefix_parse:
  assumes i: "bytes_index buf MAGIC_WORD = Inr idx"
    and n: "idx + 48 + 16 * num_points_at buf idx \<le> length buf"
  shows "parse_pointcloud_radar (take (idx + 48 + 16 * num_points_at buf idx) buf @ rest)
           = parse_pointcloud_radar buf"
    and "parse_pointcloud_radar1 (take (idx + 48 + 16 * num_points_at buf idx) buf @ rest)
           = parse_pointcloud_radar1 buf"
proof -
  let ?q = "num_points_at buf idx"
  let ?n = "idx + 48 + 16 * ?q"
  let ?buf' = "take ?n buf @ rest"
  from bytes_index_Inr [OF i] have "idx + length MAGIC_WORD \<le> ?n"
    by (simp add: MAGIC_WORD_def)
  then have i': "bytes_index ?buf' MAGIC_WORD = Inr idx"
    by (rule bytes_index_prefix [OF i])
  have l: "idx + 48 \<le> length buf" using n by simp
  have l': "idx + 48 \<le> length ?buf'" using n by simp
  have h: "idx + 48 \<le> ?n" by simp
  have q': "num_points_at ?buf' idx = ?q" by (rule prefix_fields(3) [OF h n])
  have t': "tlv_type_at ?buf' idx = tlv_type_at buf idx" by (rule prefix_fields(1) [OF h n])
  have p: "?q \<le> records_present buf idx" using n by (rule records_present_ge)
  have p': "?q \<le> records_present ?buf' idx"
    using n by (intro records_present_ge) simp
  have r: "map (record_at ?buf' idx) [0..<?q] = map (record_at buf idx) [0..<?q]"
  proof (rule map_cong [OF refl])
    fix k assume "k \<in> set [0..<?q]"
    then have "idx + 48 + 16 * k + 16 \<le> ?n" by simp
    then show "record_at ?buf' idx k = record_at buf idx k"
      using n by (rule prefix_record)
  qed
  show "parse_pointcloud_radar ?buf' = parse_pointcloud_radar buf"
    using p p'
    by (simp add: parse_pointcloud_radar_ok [OF i l] parse_pointcloud_radar_ok [OF i' l'] q' min_def r)
  show "parse_pointcloud_radar1 ?buf' = parse_pointcloud_radar1 buf"
    using p p'
    by (simp add: parse_pointcloud_radar1_ok [OF i l] parse_pointcloud_radar1_ok [OF i' l'] q' t' r)
qed

text \<open>
  Claim C10.  With \<open>q = tlv_length div 16\<close> (floor division), the result of \<open>radar.py\<close>
  and of \<open>radar1.py\<close> is determined by \<open>q\<close> alone: the cap test is \<open>1000 < q\<close>, at most
  the records \<open>0 .. q - 1\<close> are decoded, and the bytes after record \<open>q - 1\<close>, among them
  the \<open>tlv_length mod 16\<close> remainder bytes, can be replaced by any others without changing
  the result: they are never decoded as a partial record.
\<close>

theorem C10_floor_division:
  assumes "bytes_index buf MAGIC_WORD = Inr idx"
    and "idx + 48 \<le> length buf"
    and "q = unat (tlv_length_at buf idx) div 16"
  shows "parse_pointcloud_radar buf =
           Inr (if 1000 < q then Empty_0x4
                else Array (filter valid_point (map (record_at buf idx)
                       [0..<min q (records_present buf idx)])))
       \<and> (tlv_type_at buf idx = 1 \<longrightarrow>
            parse_pointcloud_radar1 buf =
              Inr (if 1000 < q then Empty_0x4
                   else if q \<le> records_present buf idx
                   then Array (filter valid_point (map (record_at buf idx) [0..<q]))
                   else Empty_0x4))
       \<and> (idx + 48 + 16 * q \<le> length buf \<longrightarrow>
            parse_pointcloud_radar (take (idx + 48 + 16 * q) buf @ rest) = parse_pointcloud_radar buf
            \<and> parse_pointcloud_radar1 (take (idx + 48 + 16 * q) buf @ rest) = parse_pointcloud_radar1 buf)"
proof -
  have q: "q = num_points_at buf idx" using assms(3) by (simp add: num_points_at_def)
  have a: "parse_pointcloud_radar buf =
           Inr (if 1000 < q then Empty_0x4
                else Array (filter valid_point (map (record_at buf idx)
                       [0..<min q (records_present buf idx)])))"
    unfolding q by (rule parse_pointcloud_radar_ok [OF assms(1,2)])
  have b: "tlv_type_at buf idx = 1 \<longrightarrow>
            parse_pointcloud_radar1 buf =
              Inr (if 1000 < q then Empty_0x4
                   else if q \<le> records_present buf idx
                   then Array (filter valid_point (map (record_at buf idx) [0..<q]))
                   else Empty_0x4)"
    unfolding q by (simp add: parse_pointcloud_radar1_ok [OF assms(1,2)])
  have c: "idx + 48 + 16 * q \<le> length buf \<longrightarrow>
            parse_pointcloud_radar (take (idx + 48 + 16 * q) buf @ rest) = parse_pointcloud_radar buf
            \<and> parse_pointcloud_radar1 (take (idx + 48 + 16 * q) buf @ rest) = parse_pointcloud_radar1 buf"
    unfolding q using prefix_parse [OF assms(1)] by blast
  from a b c show ?thesis by blast
qed

text \<open>
  A TLV length of 24 gives one record, the eight bytes after it are ignored; a TLV length
  of 16015 gives the count 1000, which passes the cap.
\<close>

theorem C10_floor_division_witness:
  "bytes_index frame_remainder MAGIC_WORD = Inr 0 \<and> 0 + 48 \<le> length frame_remainder
   \<and> (1::nat) = unat (tlv_length_at frame_remainder 0) div 16
   \<and> unat (tlv_length_at frame_remainder 0) = 24
   \<and> tlv_type_at frame_remainder 0 = 1
   \<and> 0 + 48 + 16 * 1 \<le> length frame_remainder
   \<and> parse_pointcloud_radar frame_remainder = Inr (Array [point_one])
   \<and> parse_pointcloud_radar1 frame_remainder = Inr (Array [point_one])
   \<and> parse_pointcloud_radar (take (0 + 48 + 16 * 1) frame_remainder @ record_one)
       = parse_pointcloud_radar frame_remainder
   \<and> bytes_index frame_below_cap MAGIC_WORD = Inr 0 \<and> 0 + 48 \<le> length frame_below_cap
   \<and> (1000::nat) = unat (tlv_length_at frame_below_cap 0) div 16
   \<and> unat (tlv_length_at frame_below_cap 0) = 16015
   \<and> parse_pointcloud_radar frame_below_cap = Inr (Array [point_one])"
proof -
  have q: "(1::nat) = unat (tlv_length_at frame_remainder 0) div 16"
    by (simp add: frame_remainder_facts(4))
  have n: "0 + 48 + 16 * 1 \<le> length frame_remainder"
    by (simp add: frame_remainder_facts(7))
  have q2: "(1000::nat) = unat (tlv_length_at frame_below_cap 0) div 16"
    by (simp add: frame_below_cap_facts(3))
  note A = C10_floor_division [OF frame_remainder_facts(1,2) q, of record_one]
  note B = C10_floor_division [OF frame_below_cap_facts(1,2) q2]
  from A have 1: "parse_pointcloud_radar frame_remainder = Inr (Array [point_one])"
    using frame_remainder_facts(6) by (simp add: frame_remainder_facts(5) valid_point_samples)
  from A have 2: "parse_pointcloud_radar1 frame_remainder = Inr (Array [point_one])"
    using frame_remainder_facts(6) by (simp add: frame_remainder_facts(3,5) valid_point_samples)
  from A n have 3: "parse_pointcloud_radar (take (0 + 48 + 16 * 1) frame_remainder @ record_one)
       = parse_pointcloud_radar frame_remainder" by blast
  from B have 4: "parse_pointcloud_radar frame_below_cap = Inr (Array [point_one])"
    using frame_below_cap_facts(5) by (simp add: frame_below_cap_facts(4) valid_point_samples)
  from 1 2 3 4 q n q2 frame_remainder_facts(1,2,3,4) frame_below_cap_facts(1,2,3)
  show ?thesis by blast
qed

section \<open>Starting a capture\<close>



section \<open>One iteration of the capture loop\<close>

lemma bytes_contains_iff: "bytes_contains buf sub \<longleftrightarrow> (\<exists>i. bytes_index buf sub = Inr i)"
  by (simp add: bytes_contains_def split: sum.splits)

lemma capture_iteration_running:
  "running (fst (capture_iteration_radar cb p s)) = running s"
  "running (fst (capture_iteration_radar1 cb p s)) = running s"
  by (auto simp add: capture_iteration_radar_def capture_iteration_radar1_def Let_def
      split: poll.splits sum.splits option.splits)




text \<open>
  Claim C5 as stated fails on this input: the buffer holds the synchronisation word and
  four more bytes, fewer than the 40 of a header.  The iteration ends normally with an
  empty buffer: the bytes received so far are discarded, not kept for the next iteration.
\<close>

theorem C5_short_frame_discarded:
  "frame_short \<noteq> [] \<and> bytes_index (buffer capturing_state @ frame_short) MAGIC_WORD = Inr 0
   \<and> length (buffer capturing_state @ frame_short) < 0 + 40
   \<and> snd (capture_iteration_radar callback_ok (Available frame_short) capturing_state) = None
   \<and> buffer (fst (capture_iteration_radar callback_ok (Available frame_short) capturing_state)) = []
   \<and> buffer capturing_state @ frame_short \<noteq> []"
proof -
  have c: "bytes_contains frame_short MAGIC_WORD"
    using frame_short_facts(1) by (simp add: bytes_contains_iff)
  show ?thesis
    using c frame_short_facts
    by (simp add: is_connected_samples(6) capture_iteration_radar_def parse_frame_short Let_def)
qed

text \<open>
  Claim C5, amended.  When fewer than 48 bytes (so also when fewer than 40) are available
  from the synchronisation offset, the decoder returns the empty 0-by-4 array, the same
  result as for any other failure; the iteration invokes no callback, raises nothing, and
  leaves the buffer empty, in \<open>radar.py\<close> (which also sets \<open>points_count\<close> to 0) and in
  \<open>radar1.py\<close>.
\<close>

theorem C5_short_header_clears_buffer:
  assumes "bs \<noteq> []" and "bytes_index (buffer s @ bs) MAGIC_WORD = Inr idx"
    and "length (buffer s @ bs) < idx + 48"
  shows "parse_pointcloud_radar (buffer s @ bs) = Inr Empty_0x4
       \<and> capture_iteration_radar cb (Available bs) s = (s\<lparr>buffer := [], points_count := 0\<rparr>, None)
       \<and> parse_pointcloud_radar1 (buffer s @ bs) = Inr Empty_0x4
       \<and> capture_iteration_radar1 cb (Available bs) s = (s\<lparr>buffer := []\<rparr>, None)"
proof -
  have c: "bytes_contains (buffer s @ bs) MAGIC_WORD"
    using assms(2) by (simp add: bytes_contains_iff)
  have p: "parse_pointcloud_radar (buffer s @ bs) = Inr Empty_0x4"
    by (rule parse_pointcloud_radar_short [OF assms(2,3)])
  have p1: "parse_pointcloud_radar1 (buffer s @ bs) = Inr Empty_0x4"
    by (rule parse_pointcloud_radar1_short [OF assms(2,3)])
  show ?thesis
    using assms(1) c p p1
    by (simp add: capture_iteration_radar_def capture_iteration_radar1_def Let_def)
qed

text \<open>The synchronisation word followed by four bytes.\<close>

theorem C5_short_header_clears_buffer_witness:
  "frame_short \<noteq> [] \<and> bytes_index (buffer capturing_state @ frame_short) MAGIC_WORD = Inr 0
   \<and> length (buffer capturing_state @ frame_short) < 0 + 48
   \<and> parse_pointcloud_radar (buffer capturing_state @ frame_short) = Inr Empty_0x4
   \<and> capture_iteration_radar callback_ok (Available frame_short) capturing_state
        = (capturing_state\<lparr>buffer := [], points_count := 0\<rparr>, None)"
proof -
  have i: "bytes_index (buffer capturing_state @ frame_short) MAGIC_WORD = Inr 0"
    by (simp add: is_connected_samples(6) frame_short_facts(1))
  have l: "length (buffer capturing_state @ frame_short) < 0 + 48"
    using frame_short_facts(2) by (simp add: is_connected_samples(6))
  from C5_short_header_clears_buffer [OF frame_short_facts(3) i l, of callback_ok] i l
    frame_short_facts(3)
  show ?thesis by blast
qed

section \<open>A failing iteration\<close>

text \<open>
  Claim C7 as stated fails on this input: the worker of a capturing radar meets a serial
  failure in its first iteration.  It terminates, and \<open>capturing\<close>, which was \<open>True\<close>
  before the failure, is \<open>False\<close> afterwards.
\<close>

theorem C7_capturing_reset_counterexample:
  "running capturing_state \<and> capturing capturing_state
   \<and> capture_iteration_radar callback_ok SerialFails capturing_state
        = (capturing_state, Some SerialException)
   \<and> \<not> capturing (fst (capture_loop_radar callback_ok [SerialFails] capturing_state))
   \<and> snd (capture_loop_radar callback_ok [SerialFails] capturing_state) = Terminated"
  by (simp add: is_connected_samples capture_iteration_radar_def)

text \<open>
  Claim C7, amended.  When an iteration of a running worker raises, the exception is
  printed and the worker terminates; the statement after the loop sets \<open>capturing\<close> to
  \<open>False\<close>, while \<open>running\<close> keeps the value \<open>True\<close> it had before the failure.  This
  holds for \<open>radar.py\<close> and for \<open>radar1.py\<close>.
\<close>

theorem C7_worker_failure:
  "(running s \<and> capture_iteration_radar cb p s = (s', Some e) \<longrightarrow>
       capture_loop_radar cb (p # ps) s
         = (s'\<lparr>printed := printed s' @ [e], capturing := False\<rparr>, Terminated)
     \<and> \<not> capturing (fst (capture_loop_radar cb (p # ps) s))
     \<and> running (fst (capture_loop_radar cb (p # ps) s)))
   \<and> (running s \<and> capture_iteration_radar1 cb p s = (s', Some e) \<longrightarrow>
       capture_loop_radar1 cb (p # ps) s
         = (s'\<lparr>printed := printed s' @ [e], capturing := False\<rparr>, Terminated)
     \<and> \<not> capturing (fst (capture_loop_radar1 cb (p # ps) s))
     \<and> running (fst (capture_loop_radar1 cb (p # ps) s)))"
proof -
  have a: "running s'" if "running s" "capture_iteration_radar cb p s = (s', Some e)"
    using capture_iteration_running(1) [of cb p s] that by simp
  have b: "running s'" if "running s" "capture_iteration_radar1 cb p s = (s', Some e)"
    using capture_iteration_running(2) [of cb p s] that by simp
  show ?thesis using a b by auto
qed

text \<open>A serial failure in the first iteration of a capturing radar's worker.\<close>

theorem C7_worker_failure_witness:
  "running capturing_state
   \<and> capture_iteration_radar callback_ok SerialFails capturing_state
        = (capturing_state, Some SerialException)
   \<and> capture_loop_radar callback_ok [SerialFails] capturing_state
        = (capturing_state\<lparr>printed := printed capturing_state @ [SerialException],
              capturing := False\<rparr>, Terminated)
   \<and> \<not> capturing (fst (capture_loop_radar callback_ok [SerialFails] capturing_state))
   \<and> running (fst (capture_loop_radar callback_ok [SerialFails] capturing_state))"
proof -
  have i: "capture_iteration_radar callback_ok SerialFails capturing_state
        = (capturing_state, Some SerialException)"
    by (simp add: capture_iteration_radar_def)
  from C7_worker_failure [of capturing_state callback_ok SerialFails capturing_state SerialException "[]"]
    is_connected_samples(5) i
  show ?thesis by blast
qed

end
